theory Spec2Isabelle
  imports Main "HOL-Library.Word"
begin

section \<open>The constants of agent/registration/csr.go\<close>

text \<open>
  Go's \<open>[]byte\<close> and \<open>string\<close> are both sequences of bytes; a HOL \<open>char\<close> is a byte.
\<close>

type_synonym bytes = string

text \<open>
  \<open>time.Duration\<close> is an \<open>int64\<close> count of nanoseconds, so its multiplication
  wraps at 64 bits; \<open>time.Second\<close> is 1000000000 of them.
\<close>

type_synonym Duration = "64 word"

definition Second :: Duration where
  "Second = 1000000000"

definition KeySize :: nat where
  "KeySize = 2048"

definition ExpirationSeconds :: int where
  "ExpirationSeconds = 86400 * 365"

definition ByohCSROrg :: string where
  "ByohCSROrg = ''byoh:hosts''"

definition ByohCSRCNFormat :: string where
  "ByohCSRCNFormat = ''byoh:host:%s''"

definition ByohCSRNameFormat :: string where
  "ByohCSRNameFormat = ''byoh-csr-%s''"

definition CSRApprovalTimeout :: Duration where
  "CSRApprovalTimeout = 3600 * Second"

definition TmpPrivateKey :: string where
  "TmpPrivateKey = ''byoh-client.key.tmp''"

section \<open>Errors and formatting\<close>

text \<open>
  A Go \<open>error\<close> made by \<open>fmt.Errorf\<close> is a value that carries its message. The
  errors of the libraries are values of the same type, handed on unchanged by
  \<open>return "", "", err\<close>.
\<close>

datatype error = Errorf string

fun Error :: "error \<Rightarrow> string" where
  "Error (Errorf m) = m"

text \<open>
  \<open>fmt.Sprintf\<close> for the two format strings of this file, each with one \<open>%s\<close>
  verb and one string argument: the verb is replaced by the argument, every other
  byte is copied. (The verb \<open>%v\<close> of line 57 prints an error as its message, that is
  as \<open>%s\<close> prints the string \<open>err.Error()\<close>.)
\<close>

fun Sprintf :: "string \<Rightarrow> string \<Rightarrow> string" where
  "Sprintf [] a = []"
| "Sprintf [c] a = [c]"
| "Sprintf (c # d # cs) a =
     (if c = CHR ''%'' \<and> (d = CHR ''s'' \<or> d = CHR ''v'') then a @ cs
      else c # Sprintf (d # cs) a)"

section \<open>The data of the certificate request\<close>

text \<open>\<open>pkix.Name\<close> and \<open>x509.CertificateRequest\<close>, with the fields the template sets.\<close>

record pkix_Name =
  CommonName :: string
  Organization :: "string list"

record x509_CertificateRequest =
  Subject :: pkix_Name

text \<open>\<open>pem.Block\<close>: the template sets no headers.\<close>

record pem_Block =
  Type :: string
  Bytes :: bytes

text \<open>\<open>certv1.KeyUsage\<close>: the one usage this file asks for, and any other.\<close>

datatype KeyUsage = UsageClientAuth | OtherUsage string

text \<open>
  The arguments of \<open>csr.RequestCertificate\<close> after the client, in the order of
  lines 67 to 72, each field named after the parameter it fills.
  \<open>requestedDuration\<close> is a pointer: \<open>None\<close> is \<open>nil\<close>.
\<close>

record 'key certificate_request =
  rc_csrData :: bytes
  rc_name :: string
  rc_signerName :: string
  rc_requestedDuration :: "Duration option"
  rc_usages :: "KeyUsage list"
  rc_privateKey :: 'key

section \<open>What the file takes from its libraries\<close>

text \<open>
  The local disk, as far as this file reaches it: the contents of each path that
  holds a file.
\<close>

type_synonym disk = "string \<rightharpoonup> bytes"

text \<open>
  The functions and constants of \<open>k8s.io/client-go\<close>, \<open>k8s.io/api\<close> and Go's
  standard library that csr.go calls are parameters of the model: \<open>'key\<close> is a
  parsed private key, \<open>'rnd\<close> the state of \<open>crypto/rand.Reader\<close>, \<open>'cl\<close> what the
  bootstrap client reaches (the certificate authority's requests), and \<open>'cfg\<close> the
  kubeconfig that \<open>clientcmd.WriteToFile\<close> serialises. Each function that has an
  effect takes the state it acts on and returns it updated; each \<open>(value, error)\<close>
  result is a sum with the error on the left.
\<close>

record ('key, 'rnd, 'cl, 'cfg) externals =
  LoadOrGenerateKeyFile :: "string \<Rightarrow> disk \<Rightarrow> (error + bytes \<times> bool) \<times> disk"
  ParsePrivateKeyPEM :: "bytes \<Rightarrow> error + 'key"
  CreateCertificateRequest ::
    "'rnd \<Rightarrow> x509_CertificateRequest \<Rightarrow> 'key \<Rightarrow> (error + bytes) \<times> 'rnd"
  EncodeToMemory :: "pem_Block \<Rightarrow> bytes"
  CertificateRequestBlockType :: string
  KubeAPIServerClientSignerName :: string
  RequestCertificate ::
    "'cl \<Rightarrow> 'key certificate_request \<Rightarrow> (error + string \<times> string) \<times> 'cl"
  WriteToFile :: "'cfg \<Rightarrow> string \<Rightarrow> disk \<Rightarrow> error option \<times> disk"

section \<open>RequestBYOHClientCert and generateCSR\<close>

text \<open>
  \<open>ByohCSR\<close>: the receiver. \<open>BootstrapClient\<close> stands for what the client handle
  reaches; the method updates \<open>PrivateKey\<close> in place, so the model returns the
  receiver. The receiver is a pointer that the caller holds; the model is of calls
  on a receiver that is not \<open>nil\<close>.
\<close>

record 'cl ByohCSR =
  BootstrapClient :: 'cl
  PrivateKey :: bytes

text \<open>What the method reads and changes outside its receiver.\<close>

record 'rnd host =
  files :: disk
  rand_Reader :: 'rnd

text \<open>The template of lines 81 to 86.\<close>

definition csrTemplate :: "string \<Rightarrow> x509_CertificateRequest" where
  "csrTemplate hostname =
     \<lparr>Subject = \<lparr>CommonName = Sprintf ByohCSRCNFormat hostname,
                 Organization = [ByohCSROrg]\<rparr>\<rparr>"

definition generateCSR ::
  "('key, 'rnd, 'cl, 'cfg) externals \<Rightarrow> 'rnd \<Rightarrow> string \<Rightarrow> 'key \<Rightarrow> (error + bytes) \<times> 'rnd"
where
  "generateCSR ext rnd hostname privKey =
     (case CreateCertificateRequest ext rnd (csrTemplate hostname) privKey of
        (Inl err, rnd') \<Rightarrow> (Inl err, rnd')
      | (Inr csrData, rnd') \<Rightarrow>
          (Inr (EncodeToMemory ext
                  \<lparr>Type = CertificateRequestBlockType ext, Bytes = csrData\<rparr>), rnd'))"

text \<open>Line 65: \<open>time.Duration(ExpirationSeconds) * time.Second\<close>.\<close>

definition certTimeToExpire :: Duration where
  "certTimeToExpire = word_of_int ExpirationSeconds * Second"

text \<open>The arguments that lines 66 to 72 hand to \<open>csr.RequestCertificate\<close>.\<close>

definition certificateRequest ::
  "('key, 'rnd, 'cl, 'cfg) externals \<Rightarrow> string \<Rightarrow> bytes \<Rightarrow> 'key \<Rightarrow> 'key certificate_request"
where
  "certificateRequest ext hostname csrData privateKey =
     \<lparr>rc_csrData = csrData,
      rc_name = Sprintf ByohCSRNameFormat hostname,
      rc_signerName = KubeAPIServerClientSignerName ext,
      rc_requestedDuration = Some certTimeToExpire,
      rc_usages = [UsageClientAuth],
      rc_privateKey = privateKey\<rparr>"

text \<open>
  The method returns \<open>(string, types.UID, error)\<close>; \<open>None\<close> is the \<open>nil\<close> error.
  \<open>klog.Errorf\<close> only logs and is left out.
\<close>

definition RequestBYOHClientCert ::
  "('key, 'rnd, 'cl, 'cfg) externals \<Rightarrow> 'cl ByohCSR \<Rightarrow> 'rnd host \<Rightarrow> string
     \<Rightarrow> (string \<times> string \<times> error option) \<times> 'cl ByohCSR \<times> 'rnd host"
where
  "RequestBYOHClientCert ext bcsr h hostname =
     (if hostname = [] then (([], [], Some (Errorf ''hostname is not valid'')), bcsr, h)
      else
        case LoadOrGenerateKeyFile ext TmpPrivateKey (files h) of
          (Inl err, d) \<Rightarrow> (([], [], Some err), bcsr, h\<lparr>files := d\<rparr>)
        | (Inr (keyData, wasGenerated), d) \<Rightarrow>
            (case ParsePrivateKeyPEM ext keyData of
               Inl err \<Rightarrow>
                 (([], [],
                   Some (Errorf (Sprintf ''invalid private key for certificate request: %v''
                                   (Error err)))),
                  bcsr, h\<lparr>files := d\<rparr>)
             | Inr privateKey \<Rightarrow>
                 (case generateCSR ext (rand_Reader h) hostname privateKey of
                    (Inl err, rnd) \<Rightarrow>
                      (([], [], Some err), bcsr\<lparr>PrivateKey := keyData\<rparr>,
                       \<lparr>files = d, rand_Reader = rnd\<rparr>)
                  | (Inr csrData, rnd) \<Rightarrow>
                      (case RequestCertificate ext (BootstrapClient bcsr)
                              (certificateRequest ext hostname csrData privateKey) of
                         (Inl err, cl) \<Rightarrow>
                           (([], [], Some err),
                            \<lparr>BootstrapClient = cl, PrivateKey = keyData\<rparr>,
                            \<lparr>files = d, rand_Reader = rnd\<rparr>)
                       | (Inr (reqName, reqUID), cl) \<Rightarrow>
                           ((reqName, reqUID, None),
                            \<lparr>BootstrapClient = cl, PrivateKey = keyData\<rparr>,
                            \<lparr>files = d, rand_Reader = rnd\<rparr>)))))"

section \<open>WriteKubeconfigFromBootstrapping\<close>

text \<open>
  \<open>restclient.Config\<close> with the fields read here (\<open>Insecure\<close>, \<open>CAFile\<close> and
  \<open>CAData\<close> are promoted from its \<open>TLSClientConfig\<close>), and the stanzas of
  \<open>clientcmdapi.Config\<close> with the fields set here; every other field keeps Go's
  zero value.
\<close>

record restclient_Config =
  Host :: string
  Insecure :: bool
  CAFile :: string
  CAData :: bytes

record clientcmdapi_Cluster =
  Server :: string
  InsecureSkipTLSVerify :: bool
  CertificateAuthority :: string
  CertificateAuthorityData :: bytes

record clientcmdapi_AuthInfo =
  ClientCertificate :: string
  ClientKey :: string

record clientcmdapi_Context =
  Cluster :: string
  AuthInfo :: string
  Namespace :: string

record clientcmdapi_Config =
  Clusters :: "string \<rightharpoonup> clientcmdapi_Cluster"
  AuthInfos :: "string \<rightharpoonup> clientcmdapi_AuthInfo"
  Contexts :: "string \<rightharpoonup> clientcmdapi_Context"
  CurrentContext :: string

text \<open>Lines 121 to 147: the CA data, then the kubeconfig built from it.\<close>

definition kubeconfigData ::
  "restclient_Config \<Rightarrow> string \<Rightarrow> string \<Rightarrow> clientcmdapi_Config"
where
  "kubeconfigData bootstrapClientConfig certData keyData =
     (let caFile = CAFile bootstrapClientConfig;
          caData = (if caFile = [] then CAData bootstrapClientConfig else [])
      in \<lparr>Clusters = [''default-cluster'' \<mapsto>
              \<lparr>Server = Host bootstrapClientConfig,
               InsecureSkipTLSVerify = Insecure bootstrapClientConfig,
               CertificateAuthority = caFile,
               CertificateAuthorityData = caData\<rparr>],
          AuthInfos = [''default-auth'' \<mapsto>
              \<lparr>ClientCertificate = certData, ClientKey = keyData\<rparr>],
          Contexts = [''default-context'' \<mapsto>
              \<lparr>Cluster = ''default-cluster'', AuthInfo = ''default-auth'',
               Namespace = ''default''\<rparr>],
          CurrentContext = ''default-context''\<rparr>)"

text \<open>
  \<open>bootstrapClientConfig\<close> is a pointer: reading a field of \<open>nil\<close> panics, which
  is the result \<open>None\<close>. Otherwise the function returns what
  \<open>clientcmd.WriteToFile\<close> returns for the kubeconfig and the path.
\<close>

definition WriteKubeconfigFromBootstrapping ::
  "('key, 'rnd, 'cl, clientcmdapi_Config) externals \<Rightarrow> restclient_Config option
     \<Rightarrow> string \<Rightarrow> string \<Rightarrow> string \<Rightarrow> disk \<Rightarrow> (error option \<times> disk) option"
where
  "WriteKubeconfigFromBootstrapping ext bootstrapClientConfig kubeconfigPath certData keyData d =
     (case bootstrapClientConfig of
        None \<Rightarrow> None
      | Some b \<Rightarrow> Some (WriteToFile ext (kubeconfigData b certData keyData) kubeconfigPath d))"

section \<open>The certificate authority\<close>

text \<open>
  Modelled from the spec: the certificate authority that the bootstrap client
  reaches is not among the repository's files. Section 3 of the specification
  gives its resource: an EnrollmentRequest has a name, an opaque ID and one of the
  states Pending, Approved, Denied and Issued; section 6 says that it holds the
  submitted request, and the authority keeps one resource for a name.
\<close>

datatype enrollment_state = Pending | Approved | Denied | Issued

record 'key EnrollmentRequest =
  er_uid :: string
  er_request :: "'key certificate_request"
  er_state :: enrollment_state

record 'key ca_service =
  requests :: "string \<rightharpoonup> 'key EnrollmentRequest"
  reachable :: bool

text \<open>
  Modelled from the spec: \<open>csr.RequestCertificate\<close> of k8s.io/client-go is not
  among the repository's files. Sections 4.3 and 6 of the specification describe
  it as Submit, the authority's create-or-get by name: a request of the same name
  that already exists is reused rather than duplicated, and the caller is given
  its ID; otherwise a request is created, in the state Pending, and the caller is
  given the new ID; a transport or authorisation failure is a SubmissionError.
  \<open>mint\<close> is the authority's choice of the ID of a new request.
\<close>

definition create_or_get ::
  "('key ca_service \<Rightarrow> string) \<Rightarrow> 'key ca_service \<Rightarrow> 'key certificate_request
     \<Rightarrow> (error + string \<times> string) \<times> 'key ca_service"
where
  "create_or_get mint ca req =
     (if \<not> reachable ca then (Inl (Errorf ''SubmissionError''), ca)
      else
        case requests ca (rc_name req) of
          Some existing \<Rightarrow> (Inr (rc_name req, er_uid existing), ca)
        | None \<Rightarrow>
            (Inr (rc_name req, mint ca),
             ca\<lparr>requests := (requests ca)(rc_name req \<mapsto>
                   \<lparr>er_uid = mint ca, er_request = req, er_state = Pending\<rparr>)\<rparr>))"

section \<open>What the key file helper leaves on the disk\<close>

text \<open>
  \<open>keyutil.LoadOrGenerateKeyFile\<close> returns the bytes of a key file. That the
  file at the path holds those bytes when the helper returns is a property of the
  helper, which the theorem on the persisted key names as the one thing it needs
  of it: for a given path and disk, a call that succeeds leaves at the path the
  bytes it returns.
\<close>

definition leaves_what_it_returns ::
  "('key, 'rnd, 'cl, 'cfg) externals \<Rightarrow> string \<Rightarrow> disk \<Rightarrow> bool"
where
  "leaves_what_it_returns ext path d =
     (case LoadOrGenerateKeyFile ext path d of
        (Inl err, d') \<Rightarrow> True
      | (Inr (keyData, wasGenerated), d') \<Rightarrow> d' path = Some keyData)"

section \<open>An environment to run the definitions in\<close>

text \<open>
  One choice of the library functions, small enough to compute with, on which the
  theorems below are exercised. A key is its own PEM text. The key file helper
  returns the file it finds and writes \<open>fresh key\<close> where there is none. The
  signer draws one byte of entropy for each signature and puts it into the bytes
  it returns, as a randomised signature scheme such as ECDSA does; without
  entropy it fails. The certificate authority is \<open>create_or_get\<close>, giving every
  new request the ID \<open>uid-1\<close>.
\<close>

definition demo_LoadOrGenerateKeyFile ::
  "string \<Rightarrow> disk \<Rightarrow> (error + bytes \<times> bool) \<times> disk"
where
  "demo_LoadOrGenerateKeyFile path d =
     (case d path of
        Some data \<Rightarrow> (Inr (data, False), d)
      | None \<Rightarrow> (Inr (''fresh key'', True), d(path \<mapsto> ''fresh key'')))"

definition demo_ParsePrivateKeyPEM :: "bytes \<Rightarrow> error + bytes" where
  "demo_ParsePrivateKeyPEM data =
     (if data = [] then Inl (Errorf ''data does not contain a valid private key'')
      else Inr data)"

definition demo_CreateCertificateRequest ::
  "bytes \<Rightarrow> x509_CertificateRequest \<Rightarrow> bytes \<Rightarrow> (error + bytes) \<times> bytes"
where
  "demo_CreateCertificateRequest rnd template key =
     (case rnd of
        [] \<Rightarrow> (Inl (Errorf ''EOF''), [])
      | nonce # rest \<Rightarrow>
          (Inr (CommonName (Subject template) @ ''/''
                  @ concat (Organization (Subject template)) @ ''/'' @ key @ ''/'' @ [nonce]),
           rest))"

definition demo_EncodeToMemory :: "pem_Block \<Rightarrow> bytes" where
  "demo_EncodeToMemory b = ''BEGIN '' @ Type b @ '': '' @ Bytes b"

definition demo_WriteToFile ::
  "clientcmdapi_Config \<Rightarrow> string \<Rightarrow> disk \<Rightarrow> error option \<times> disk"
where
  "demo_WriteToFile config filename d =
     (None, d(filename \<mapsto> ''current-context: '' @ CurrentContext config))"

definition demo ::
  "(bytes, bytes, bytes ca_service, clientcmdapi_Config) externals"
where
  "demo =
     \<lparr>LoadOrGenerateKeyFile = demo_LoadOrGenerateKeyFile,
      ParsePrivateKeyPEM = demo_ParsePrivateKeyPEM,
      CreateCertificateRequest = demo_CreateCertificateRequest,
      EncodeToMemory = demo_EncodeToMemory,
      CertificateRequestBlockType = ''CERTIFICATE REQUEST'',
      KubeAPIServerClientSignerName = ''kubernetes.io/kube-apiserver-client'',
      RequestCertificate = create_or_get (\<lambda>ca. ''uid-1''),
      WriteToFile = demo_WriteToFile\<rparr>"

text \<open>
  A first run: a receiver whose authority holds no request, on a host with no key
  file and three bytes of entropy.
\<close>

definition demo_bcsr :: "bytes ca_service ByohCSR" where
  "demo_bcsr =
     \<lparr>BootstrapClient = \<lparr>requests = Map.empty, reachable = True\<rparr>, PrivateKey = []\<rparr>"

definition demo_host :: "bytes host" where
  "demo_host = \<lparr>files = Map.empty, rand_Reader = ''xyz''\<rparr>"

text \<open>What that run submits, and the receiver and the host it leaves.\<close>

definition demo_request :: "bytes certificate_request" where
  "demo_request =
     \<lparr>rc_csrData = ''BEGIN CERTIFICATE REQUEST: byoh:host:node-1/byoh:hosts/fresh key/x'',
      rc_name = ''byoh-csr-node-1'',
      rc_signerName = ''kubernetes.io/kube-apiserver-client'',
      rc_requestedDuration = Some certTimeToExpire,
      rc_usages = [UsageClientAuth],
      rc_privateKey = ''fresh key''\<rparr>"

definition demo_bcsr' :: "bytes ca_service ByohCSR" where
  "demo_bcsr' =
     \<lparr>BootstrapClient =
        \<lparr>requests = [''byoh-csr-node-1'' \<mapsto>
            \<lparr>er_uid = ''uid-1'', er_request = demo_request, er_state = Pending\<rparr>],
         reachable = True\<rparr>,
      PrivateKey = ''fresh key''\<rparr>"

definition demo_host' :: "bytes host" where
  "demo_host' =
     \<lparr>files = [''byoh-client.key.tmp'' \<mapsto> ''fresh key''], rand_Reader = ''yz''\<rparr>"

text \<open>Two bootstrap client configurations: one names a CA file, one carries CA data.\<close>

definition demo_config_file :: restclient_Config where
  "demo_config_file =
     \<lparr>Host = ''https://10.0.0.1:6443'', Insecure = False,
      CAFile = ''/etc/ca.crt'', CAData = ''inline ca''\<rparr>"

definition demo_config_data :: restclient_Config where
  "demo_config_data =
     \<lparr>Host = ''https://10.0.0.1:6443'', Insecure = False,
      CAFile = [], CAData = ''inline ca''\<rparr>"

section \<open>Facts shared by the theorems\<close>

lemmas demo_defs = demo_def demo_LoadOrGenerateKeyFile_def demo_ParsePrivateKeyPEM_def
  demo_CreateCertificateRequest_def demo_EncodeToMemory_def demo_WriteToFile_def
  demo_bcsr_def demo_host_def demo_bcsr'_def demo_host'_def demo_request_def
  create_or_get_def

lemmas csr_defs = RequestBYOHClientCert_def generateCSR_def certificateRequest_def
  csrTemplate_def ByohCSRCNFormat_def ByohCSRNameFormat_def ByohCSROrg_def TmpPrivateKey_def

lemma Sprintf_ByohCSRCNFormat: "Sprintf ByohCSRCNFormat hostname = ''byoh:host:'' @ hostname"
  by (simp add: ByohCSRCNFormat_def)

lemma Sprintf_ByohCSRNameFormat: "Sprintf ByohCSRNameFormat hostname = ''byoh-csr-'' @ hostname"
  by (simp add: ByohCSRNameFormat_def)

lemma demo_run:
  "RequestBYOHClientCert demo demo_bcsr demo_host ''node-1'' =
     ((''byoh-csr-node-1'', ''uid-1'', None), demo_bcsr', demo_host')"
  by (simp add: demo_defs csr_defs)

lemma demo_rerun:
  "RequestBYOHClientCert demo demo_bcsr' demo_host' ''node-1'' =
     ((''byoh-csr-node-1'', ''uid-1'', None), demo_bcsr', demo_host'\<lparr>rand_Reader := ''z''\<rparr>)"
  by (simp add: demo_defs csr_defs)

text \<open>
  A run that returns no error has passed every step: the key file helper gave the
  bytes now in the receiver, they parsed, the request was built with the parsed
  key, and \<open>csr.RequestCertificate\<close> accepted it.
\<close>

lemma RequestBYOHClientCert_None:
  assumes "RequestBYOHClientCert ext bcsr h hostname = ((n, u, None), bcsr', h')"
  shows "hostname \<noteq> [] \<and> (\<exists>wasGenerated privateKey csrData.
      LoadOrGenerateKeyFile ext TmpPrivateKey (files h)
        = (Inr (PrivateKey bcsr', wasGenerated), files h') \<and>
      ParsePrivateKeyPEM ext (PrivateKey bcsr') = Inr privateKey \<and>
      generateCSR ext (rand_Reader h) hostname privateKey = (Inr csrData, rand_Reader h') \<and>
      RequestCertificate ext (BootstrapClient bcsr)
        (certificateRequest ext hostname csrData privateKey)
        = (Inr (n, u), BootstrapClient bcsr'))"
  using assms
  by (auto simp: RequestBYOHClientCert_def split: if_splits prod.splits sum.splits)

text \<open>
  Once the key is loaded and parsed and the request is built, the method hands
  \<open>certificateRequest\<close> to \<open>csr.RequestCertificate\<close>; what it returns, and what
  the client reaches afterwards, are what that call returns.
\<close>

lemma RequestBYOHClientCert_submits:
  assumes "hostname \<noteq> []"
    and "LoadOrGenerateKeyFile ext TmpPrivateKey (files h) = (Inr (keyData, wasGenerated), d)"
    and "ParsePrivateKeyPEM ext keyData = Inr privateKey"
    and "generateCSR ext (rand_Reader h) hostname privateKey = (Inr csrData, rnd)"
  shows "RequestBYOHClientCert ext bcsr h hostname =
     (case RequestCertificate ext (BootstrapClient bcsr)
             (certificateRequest ext hostname csrData privateKey) of
        (Inl err, cl) \<Rightarrow>
          (([], [], Some err), \<lparr>BootstrapClient = cl, PrivateKey = keyData\<rparr>,
           \<lparr>files = d, rand_Reader = rnd\<rparr>)
      | (Inr (reqName, reqUID), cl) \<Rightarrow>
          ((reqName, reqUID, None), \<lparr>BootstrapClient = cl, PrivateKey = keyData\<rparr>,
           \<lparr>files = d, rand_Reader = rnd\<rparr>))"
  using assms
  by (simp add: RequestBYOHClientCert_def)

text \<open>
  On every other path the method returns before that call, and the client reaches
  what it reached before.
\<close>

lemma RequestBYOHClientCert_untouched:
  "BootstrapClient (fst (snd (RequestBYOHClientCert ext bcsr h hostname))) = BootstrapClient bcsr \<or>
   (\<exists>keyData wasGenerated d privateKey csrData rnd.
      hostname \<noteq> [] \<and>
      LoadOrGenerateKeyFile ext TmpPrivateKey (files h) = (Inr (keyData, wasGenerated), d) \<and>
      ParsePrivateKeyPEM ext keyData = Inr privateKey \<and>
      generateCSR ext (rand_Reader h) hostname privateKey = (Inr csrData, rnd))"
  by (auto simp: RequestBYOHClientCert_def split: prod.splits sum.splits)

lemma create_or_get_Inr:
  assumes "create_or_get mint ca req = (Inr (n, u), ca')"
  shows "n = rc_name req \<and> (\<exists>r. requests ca' n = Some r \<and> er_uid r = u)"
  using assms
  by (auto simp: create_or_get_def split: if_splits option.splits)

lemma create_or_get_again:
  assumes "requests ca (rc_name req) = Some r"
    and "create_or_get mint ca req = (Inr (n, u), ca')"
  shows "n = rc_name req \<and> u = er_uid r \<and> ca' = ca"
  using assms
  by (auto simp: create_or_get_def split: if_splits option.splits)

section \<open>Empty host names\<close>

text \<open>
  C5, as the specification states it, does not hold of the builder: \<open>generateCSR\<close>
  has no check of the host name. In the environment it builds, for the empty host
  name, a request whose common name is "byoh:host:", and returns no error.
\<close>

theorem generateCSR_empty_hostname_counterexample:
  "generateCSR demo ''xyz'' [] ''fresh key''
     = (Inr ''BEGIN CERTIFICATE REQUEST: byoh:host:/byoh:hosts/fresh key/x'', ''yz'')"
  by (simp add: demo_defs csr_defs)

text \<open>
  C5, amended. The check of the host name is the first statement of
  \<open>RequestBYOHClientCert\<close>. For every key, whatever the key file, the entropy
  and the certificate authority hold: asked for a certificate for the empty host
  name, \<open>RequestBYOHClientCert\<close> returns the empty request name, the empty
  request UID and the error "hostname is not valid", and no other error. It does
  so before it loads a key or builds a request: the receiver, the disk, the
  entropy source and the certificate authority are as they were. The builder
  \<open>generateCSR\<close> does not check the host name itself: for the empty one it hands
  the signer the subject with common name "byoh:host:" and organization
  "byoh:hosts", and fails only where the signer fails.
\<close>

theorem empty_hostname_is_not_valid:
  "RequestBYOHClientCert ext bcsr h [] =
     (([], [], Some (Errorf ''hostname is not valid'')), bcsr, h) \<and>
   generateCSR ext rnd [] privKey =
     (case CreateCertificateRequest ext rnd
             \<lparr>Subject = \<lparr>CommonName = ''byoh:host:'',
                         Organization = [''byoh:hosts'']\<rparr>\<rparr> privKey of
        (Inl err, rnd') \<Rightarrow> (Inl err, rnd')
      | (Inr der, rnd') \<Rightarrow>
          (Inr (EncodeToMemory ext \<lparr>Type = CertificateRequestBlockType ext, Bytes = der\<rparr>),
           rnd'))"
  by (simp add: RequestBYOHClientCert_def generateCSR_def csrTemplate_def
      ByohCSRCNFormat_def ByohCSROrg_def)

text \<open>
  In the environment: the method refuses the empty host name and leaves the
  receiver and the host as they were, with no key file written and no entropy
  drawn; the builder, called on its own, draws a byte and returns a request.
\<close>

theorem empty_hostname_is_not_valid_witness:
  "RequestBYOHClientCert demo demo_bcsr demo_host [] =
     (([], [], Some (Errorf ''hostname is not valid'')), demo_bcsr, demo_host) \<and>
   files demo_host TmpPrivateKey = None \<and>
   rand_Reader demo_host = ''xyz'' \<and>
   generateCSR demo ''xyz'' [] ''fresh key''
     = (Inr ''BEGIN CERTIFICATE REQUEST: byoh:host:/byoh:hosts/fresh key/x'', ''yz'')"
  using empty_hostname_is_not_valid [of demo demo_bcsr demo_host "''xyz''" "''fresh key''"]
  by (simp add: demo_defs)

section \<open>Submitting twice\<close>

text \<open>
  C1. Submit is idempotent by request name. With the certificate authority as the
  specification describes it (create-or-get by name), when a call of
  \<open>RequestBYOHClientCert\<close> for a host name has returned a request name and a
  request ID, a later call for the same host name through a client that reaches
  the same authority, if it returns without an error, returns the same request
  name and the same request ID; it leaves the authority as the first call left
  it, so no second resource is created; and the ID is the one of the resource the
  authority holds under that name, the existing resource being reused. The key
  file, the key and the entropy of the second call play no part in this.
\<close>

theorem submit_idempotent:
  assumes ca: "RequestCertificate ext = create_or_get mint"
    and first: "RequestBYOHClientCert ext bcsr h hostname = ((n1, u1, None), bcsr1, h1)"
    and same: "BootstrapClient bcsr2 = BootstrapClient bcsr1"
    and second: "RequestBYOHClientCert ext bcsr2 h2 hostname = ((n2, u2, None), bcsr3, h3)"
  shows "n2 = n1 \<and> u2 = u1 \<and> BootstrapClient bcsr3 = BootstrapClient bcsr1 \<and>
         (\<exists>r. requests (BootstrapClient bcsr1) n1 = Some r \<and> er_uid r = u1)"
proof -
  from RequestBYOHClientCert_None [OF first] obtain c1 k1 where
    r1: "create_or_get mint (BootstrapClient bcsr) (certificateRequest ext hostname c1 k1)
           = (Inr (n1, u1), BootstrapClient bcsr1)"
    by (auto simp: ca)
  from RequestBYOHClientCert_None [OF second] obtain c2 k2 where
    r2: "create_or_get mint (BootstrapClient bcsr2) (certificateRequest ext hostname c2 k2)
           = (Inr (n2, u2), BootstrapClient bcsr3)"
    by (auto simp: ca)
  from create_or_get_Inr [OF r1] obtain r where
    n1: "n1 = Sprintf ByohCSRNameFormat hostname"
    and r: "requests (BootstrapClient bcsr1) n1 = Some r" and u1: "er_uid r = u1"
    by (auto simp: certificateRequest_def)
  have "requests (BootstrapClient bcsr2) (rc_name (certificateRequest ext hostname c2 k2))
          = Some r"
    using r n1 same by (simp add: certificateRequest_def)
  from create_or_get_again [OF this r2]
  have "n2 = n1" and "u2 = u1" and "BootstrapClient bcsr3 = BootstrapClient bcsr1"
    using n1 u1 same by (simp_all add: certificateRequest_def)
  with r u1 show ?thesis by simp
qed

text \<open>
  The two runs of the environment for the host "node-1": the first creates the
  request \<open>byoh-csr-node-1\<close> with the ID \<open>uid-1\<close>, the second returns the same
  name and ID and leaves the receiver, and with it the authority, unchanged.
\<close>

theorem submit_idempotent_witness:
  "RequestCertificate demo = create_or_get (\<lambda>ca. ''uid-1'') \<and>
   RequestBYOHClientCert demo demo_bcsr demo_host ''node-1''
     = ((''byoh-csr-node-1'', ''uid-1'', None), demo_bcsr', demo_host') \<and>
   RequestBYOHClientCert demo demo_bcsr' demo_host' ''node-1''
     = ((''byoh-csr-node-1'', ''uid-1'', None), demo_bcsr', demo_host'\<lparr>rand_Reader := ''z''\<rparr>) \<and>
   (\<exists>r. requests (BootstrapClient demo_bcsr') ''byoh-csr-node-1'' = Some r
        \<and> er_uid r = ''uid-1'')"
proof -
  have ca: "RequestCertificate demo = create_or_get (\<lambda>ca. ''uid-1'')"
    by (simp add: demo_def)
  from submit_idempotent [OF ca demo_run refl demo_rerun]
  have "\<exists>r. requests (BootstrapClient demo_bcsr') ''byoh-csr-node-1'' = Some r
            \<and> er_uid r = ''uid-1''"
    by simp
  with ca demo_run demo_rerun show ?thesis by simp
qed

section \<open>The names for the host "node-1"\<close>

text \<open>
  C2, as the specification states it, does not hold: for the host identifier
  "node-1" the common name of the template is not "identity:host:node-1" and the
  name of the request is not "enroll-node-1".
\<close>

theorem node_1_names_counterexample:
  "CommonName (Subject (csrTemplate ''node-1'')) \<noteq> ''identity:host:node-1'' \<and>
   rc_name (certificateRequest demo ''node-1'' [] ''fresh key'') \<noteq> ''enroll-node-1''"
  by (simp add: csr_defs)

text \<open>
  C2, amended. For the host identifier "node-1" the request is built from the
  subject with common name "byoh:host:node-1" and organization "byoh:hosts": that
  is the template \<open>generateCSR\<close> hands to the signer. And
  \<open>RequestBYOHClientCert\<close> asks \<open>csr.RequestCertificate\<close> for a request named
  "byoh-csr-node-1": when it returns a request name and ID without an error, they
  are what \<open>csr.RequestCertificate\<close> returned for a request of that name, which
  carries the bytes \<open>generateCSR\<close> built.
\<close>

theorem node_1_names:
  "generateCSR ext rnd ''node-1'' privKey =
     (case CreateCertificateRequest ext rnd
             \<lparr>Subject = \<lparr>CommonName = ''byoh:host:node-1'',
                         Organization = [''byoh:hosts'']\<rparr>\<rparr> privKey of
        (Inl err, rnd') \<Rightarrow> (Inl err, rnd')
      | (Inr der, rnd') \<Rightarrow>
          (Inr (EncodeToMemory ext \<lparr>Type = CertificateRequestBlockType ext, Bytes = der\<rparr>),
           rnd')) \<and>
   (RequestBYOHClientCert ext bcsr h ''node-1'' = ((n, u, None), bcsr', h') \<longrightarrow>
      (\<exists>req privateKey.
         rc_name req = ''byoh-csr-node-1'' \<and>
         generateCSR ext (rand_Reader h) ''node-1'' privateKey
           = (Inr (rc_csrData req), rand_Reader h') \<and>
         RequestCertificate ext (BootstrapClient bcsr) req
           = (Inr (n, u), BootstrapClient bcsr')))"
proof (intro conjI impI)
  show "generateCSR ext rnd ''node-1'' privKey =
     (case CreateCertificateRequest ext rnd
             \<lparr>Subject = \<lparr>CommonName = ''byoh:host:node-1'',
                         Organization = [''byoh:hosts'']\<rparr>\<rparr> privKey of
        (Inl err, rnd') \<Rightarrow> (Inl err, rnd')
      | (Inr der, rnd') \<Rightarrow>
          (Inr (EncodeToMemory ext \<lparr>Type = CertificateRequestBlockType ext, Bytes = der\<rparr>),
           rnd'))"
    by (simp add: generateCSR_def csrTemplate_def ByohCSRCNFormat_def ByohCSROrg_def)
next
  assume run: "RequestBYOHClientCert ext bcsr h ''node-1'' = ((n, u, None), bcsr', h')"
  from RequestBYOHClientCert_None [OF run] obtain privateKey csrData where
    gen: "generateCSR ext (rand_Reader h) ''node-1'' privateKey = (Inr csrData, rand_Reader h')"
    and req: "RequestCertificate ext (BootstrapClient bcsr)
                (certificateRequest ext ''node-1'' csrData privateKey)
                = (Inr (n, u), BootstrapClient bcsr')"
    by blast
  have "rc_name (certificateRequest ext ''node-1'' csrData privateKey) = ''byoh-csr-node-1''"
    and "rc_csrData (certificateRequest ext ''node-1'' csrData privateKey) = csrData"
    by (simp_all add: certificateRequest_def ByohCSRNameFormat_def)
  with gen req show "\<exists>req privateKey.
         rc_name req = ''byoh-csr-node-1'' \<and>
         generateCSR ext (rand_Reader h) ''node-1'' privateKey
           = (Inr (rc_csrData req), rand_Reader h') \<and>
         RequestCertificate ext (BootstrapClient bcsr) req
           = (Inr (n, u), BootstrapClient bcsr')"
    by metis
qed

text \<open>
  In the environment, the run for "node-1" returns the name "byoh-csr-node-1",
  and the authority then holds a request under that name whose bytes carry the
  common name "byoh:host:node-1".
\<close>

theorem node_1_names_witness:
  "RequestBYOHClientCert demo demo_bcsr demo_host ''node-1''
     = ((''byoh-csr-node-1'', ''uid-1'', None), demo_bcsr', demo_host') \<and>
   (\<exists>req privateKey.
      rc_name req = ''byoh-csr-node-1'' \<and>
      generateCSR demo (rand_Reader demo_host) ''node-1'' privateKey
        = (Inr (rc_csrData req), rand_Reader demo_host') \<and>
      RequestCertificate demo (BootstrapClient demo_bcsr) req
        = (Inr (''byoh-csr-node-1'', ''uid-1''), BootstrapClient demo_bcsr')) \<and>
   generateCSR demo ''xyz'' ''node-1'' ''fresh key''
     = (Inr ''BEGIN CERTIFICATE REQUEST: byoh:host:node-1/byoh:hosts/fresh key/x'', ''yz'')"
proof -
  have "generateCSR demo ''xyz'' ''node-1'' ''fresh key''
     = (Inr ''BEGIN CERTIFICATE REQUEST: byoh:host:node-1/byoh:hosts/fresh key/x'', ''yz'')"
    using node_1_names [of demo "''xyz''" "''fresh key''", THEN conjunct1]
    by (simp add: demo_defs)
  with demo_run node_1_names [of demo "''xyz''" "''fresh key''" demo_bcsr demo_host
      "''byoh-csr-node-1''" "''uid-1''" demo_bcsr' demo_host']
  show ?thesis by blast
qed

section \<open>The key of the request and the key on the disk\<close>

text \<open>
  C4. Every call of \<open>RequestBYOHClientCert\<close> that returns without an error has
  this shape. The receiver's \<open>PrivateKey\<close> field holds the bytes that the key
  file helper returned for the path \<open>TmpPrivateKey\<close>, and the disk is as the
  helper left it; the key that signs is the key parsed from those bytes:
  \<open>generateCSR\<close> builds the request with it, and the request submitted carries
  the bytes \<open>generateCSR\<close> built and that same key. Where the helper leaves at
  the path the bytes it returns, the file \<open>TmpPrivateKey\<close> holds the bytes of
  the receiver's \<open>PrivateKey\<close> field, so the key of the request is the key of
  the persisted file.
\<close>

theorem csr_key_is_persisted_key:
  assumes "RequestBYOHClientCert ext bcsr h hostname = ((n, u, None), bcsr', h')"
  shows "\<exists>wasGenerated privateKey csrData.
      LoadOrGenerateKeyFile ext TmpPrivateKey (files h)
        = (Inr (PrivateKey bcsr', wasGenerated), files h') \<and>
      ParsePrivateKeyPEM ext (PrivateKey bcsr') = Inr privateKey \<and>
      generateCSR ext (rand_Reader h) hostname privateKey = (Inr csrData, rand_Reader h') \<and>
      RequestCertificate ext (BootstrapClient bcsr)
        (certificateRequest ext hostname csrData privateKey)
        = (Inr (n, u), BootstrapClient bcsr') \<and>
      rc_csrData (certificateRequest ext hostname csrData privateKey) = csrData \<and>
      rc_privateKey (certificateRequest ext hostname csrData privateKey) = privateKey \<and>
      (leaves_what_it_returns ext TmpPrivateKey (files h)
         \<longrightarrow> files h' TmpPrivateKey = Some (PrivateKey bcsr'))"
proof -
  from RequestBYOHClientCert_None [OF assms] obtain wasGenerated privateKey csrData where
    load: "LoadOrGenerateKeyFile ext TmpPrivateKey (files h)
             = (Inr (PrivateKey bcsr', wasGenerated), files h')"
    and rest: "ParsePrivateKeyPEM ext (PrivateKey bcsr') = Inr privateKey"
      "generateCSR ext (rand_Reader h) hostname privateKey = (Inr csrData, rand_Reader h')"
      "RequestCertificate ext (BootstrapClient bcsr)
         (certificateRequest ext hostname csrData privateKey)
         = (Inr (n, u), BootstrapClient bcsr')"
    by blast
  have "leaves_what_it_returns ext TmpPrivateKey (files h)
          \<longrightarrow> files h' TmpPrivateKey = Some (PrivateKey bcsr')"
    using load by (simp add: leaves_what_it_returns_def)
  with load rest show ?thesis
    by (auto simp: certificateRequest_def)
qed

text \<open>
  In the environment the helper writes the key it generates, and after the run
  for "node-1" the receiver, the key file and the submitted request all hold
  \<open>fresh key\<close>.
\<close>

theorem csr_key_is_persisted_key_witness:
  "RequestBYOHClientCert demo demo_bcsr demo_host ''node-1''
     = ((''byoh-csr-node-1'', ''uid-1'', None), demo_bcsr', demo_host') \<and>
   leaves_what_it_returns demo TmpPrivateKey (files demo_host) \<and>
   PrivateKey demo_bcsr' = ''fresh key'' \<and>
   files demo_host' TmpPrivateKey = Some ''fresh key'' \<and>
   ParsePrivateKeyPEM demo ''fresh key'' = Inr ''fresh key'' \<and>
   rc_privateKey demo_request = ''fresh key''"
proof -
  have leaves: "leaves_what_it_returns demo TmpPrivateKey (files demo_host)"
    by (simp add: leaves_what_it_returns_def demo_defs)
  from csr_key_is_persisted_key [OF demo_run] leaves
  have "files demo_host' TmpPrivateKey = Some (PrivateKey demo_bcsr')"
    by blast
  with demo_run leaves show ?thesis
    by (simp add: demo_defs)
qed

section \<open>The kubeconfig\<close>

text \<open>
  C6. For every endpoint, CA trust material, certificate path and key path (and
  every target path), \<open>WriteKubeconfigFromBootstrapping\<close> hands to
  \<open>clientcmd.WriteToFile\<close> a kubeconfig that has exactly one cluster entry,
  named "default-cluster", carrying the endpoint and the CA trust of the bootstrap
  configuration; exactly one auth entry, named "default-auth", carrying the client
  certificate and key; exactly one context entry, named "default-context", that
  binds "default-cluster" to "default-auth"; and the current context
  "default-context".
\<close>

theorem kubeconfig_entries:
  "WriteKubeconfigFromBootstrapping ext (Some b) kubeconfigPath certData keyData d
     = Some (WriteToFile ext (kubeconfigData b certData keyData) kubeconfigPath d) \<and>
   dom (Clusters (kubeconfigData b certData keyData)) = {''default-cluster''} \<and>
   Clusters (kubeconfigData b certData keyData) ''default-cluster''
     = Some \<lparr>Server = Host b, InsecureSkipTLSVerify = Insecure b,
             CertificateAuthority = CAFile b,
             CertificateAuthorityData = (if CAFile b = [] then CAData b else [])\<rparr> \<and>
   dom (AuthInfos (kubeconfigData b certData keyData)) = {''default-auth''} \<and>
   AuthInfos (kubeconfigData b certData keyData) ''default-auth''
     = Some \<lparr>ClientCertificate = certData, ClientKey = keyData\<rparr> \<and>
   dom (Contexts (kubeconfigData b certData keyData)) = {''default-context''} \<and>
   Contexts (kubeconfigData b certData keyData) ''default-context''
     = Some \<lparr>Cluster = ''default-cluster'', AuthInfo = ''default-auth'',
             Namespace = ''default''\<rparr> \<and>
   CurrentContext (kubeconfigData b certData keyData) = ''default-context''"
  by (simp add: WriteKubeconfigFromBootstrapping_def kubeconfigData_def Let_def)

text \<open>
  In the environment, for the bootstrap configuration that carries CA data, the
  kubeconfig is written to the path given, with these entries.
\<close>

theorem kubeconfig_entries_witness:
  "WriteKubeconfigFromBootstrapping demo (Some demo_config_data) ''/root/.byoh/config''
       ''/c.crt'' ''/c.key'' Map.empty
     = Some (None, [''/root/.byoh/config'' \<mapsto> ''current-context: default-context'']) \<and>
   dom (Clusters (kubeconfigData demo_config_data ''/c.crt'' ''/c.key'')) = {''default-cluster''} \<and>
   Clusters (kubeconfigData demo_config_data ''/c.crt'' ''/c.key'') ''default-cluster''
     = Some \<lparr>Server = ''https://10.0.0.1:6443'', InsecureSkipTLSVerify = False,
             CertificateAuthority = [], CertificateAuthorityData = ''inline ca''\<rparr> \<and>
   AuthInfos (kubeconfigData demo_config_data ''/c.crt'' ''/c.key'') ''default-auth''
     = Some \<lparr>ClientCertificate = ''/c.crt'', ClientKey = ''/c.key''\<rparr> \<and>
   Contexts (kubeconfigData demo_config_data ''/c.crt'' ''/c.key'') ''default-context''
     = Some \<lparr>Cluster = ''default-cluster'', AuthInfo = ''default-auth'',
             Namespace = ''default''\<rparr>"
  using kubeconfig_entries [of demo demo_config_data "''/root/.byoh/config''" "''/c.crt''"
      "''/c.key''" Map.empty]
  by (simp add: demo_def demo_WriteToFile_def demo_config_data_def)

text \<open>
  C10. In the kubeconfig, the cluster entry names the CA file of the bootstrap
  configuration; its inline CA data are those of the bootstrap configuration when
  that configuration names no CA file, and are empty when it names one. So the
  entry never has both a CA file and inline CA data.
\<close>

theorem ca_trust_sources:
  "\<exists>cluster. Clusters (kubeconfigData b certData keyData) ''default-cluster'' = Some cluster \<and>
     CertificateAuthority cluster = CAFile b \<and>
     (CAFile b = [] \<longrightarrow> CertificateAuthorityData cluster = CAData b) \<and>
     (CAFile b \<noteq> [] \<longrightarrow> CertificateAuthorityData cluster = []) \<and>
     (CertificateAuthority cluster = [] \<or> CertificateAuthorityData cluster = [])"
  by (simp add: kubeconfigData_def Let_def)

text \<open>
  Both cases: a bootstrap configuration that names a CA file (and carries CA data
  as well) gives a cluster entry with the file and no data; one without a CA file
  gives an entry with the data and no file.
\<close>

theorem ca_trust_sources_witness:
  "CAFile demo_config_file \<noteq> [] \<and>
   Clusters (kubeconfigData demo_config_file ''/c.crt'' ''/c.key'') ''default-cluster''
     = Some \<lparr>Server = ''https://10.0.0.1:6443'', InsecureSkipTLSVerify = False,
             CertificateAuthority = ''/etc/ca.crt'', CertificateAuthorityData = []\<rparr> \<and>
   CAFile demo_config_data = [] \<and>
   Clusters (kubeconfigData demo_config_data ''/c.crt'' ''/c.key'') ''default-cluster''
     = Some \<lparr>Server = ''https://10.0.0.1:6443'', InsecureSkipTLSVerify = False,
             CertificateAuthority = [], CertificateAuthorityData = ''inline ca''\<rparr>"
proof -
  from ca_trust_sources [of demo_config_file "''/c.crt''" "''/c.key''"]
  obtain c1 where c1:
    "Clusters (kubeconfigData demo_config_file ''/c.crt'' ''/c.key'') ''default-cluster'' = Some c1"
    "CertificateAuthority c1 = CAFile demo_config_file"
    "CAFile demo_config_file \<noteq> [] \<longrightarrow> CertificateAuthorityData c1 = []"
    by blast
  from ca_trust_sources [of demo_config_data "''/c.crt''" "''/c.key''"]
  obtain c2 where c2:
    "Clusters (kubeconfigData demo_config_data ''/c.crt'' ''/c.key'') ''default-cluster'' = Some c2"
    "CertificateAuthority c2 = CAFile demo_config_data"
    "CAFile demo_config_data = [] \<longrightarrow> CertificateAuthorityData c2 = CAData demo_config_data"
    by blast
  from c1 c2 show ?thesis
    by (simp add: kubeconfigData_def Let_def demo_config_file_def demo_config_data_def)
qed

section \<open>The entropy of the signer\<close>

text \<open>
  C8, as the specification states it, does not hold: \<open>generateCSR\<close> hands
  \<open>crypto/rand.Reader\<close> to the signer, so the bytes it returns are a function of
  the entropy as well as of the host identifier and the key. In the environment,
  whose signer uses the entropy it draws, two invocations for the same host
  identifier and key differ when the entropy does.
\<close>

theorem generateCSR_same_inputs_counterexample:
  "fst (generateCSR demo ''x'' ''node-1'' ''fresh key'')
     \<noteq> fst (generateCSR demo ''y'' ''node-1'' ''fresh key'')"
  by (simp add: demo_defs csr_defs)

text \<open>
  C8, amended. The CSR builder does no network and no disk I/O: it reaches
  neither the certificate authority nor the files, whatever those library
  functions are. Its subject depends on the host identifier alone. It signs with
  entropy read from \<open>crypto/rand.Reader\<close>: two invocations with the same host
  identifier and key return identical CSR bytes (or the same error) whenever the
  signer returns the same for the entropy each of them reads, and so whenever
  both read the same entropy.
\<close>

theorem generateCSR_same_signature:
  assumes "fst (CreateCertificateRequest ext rnd1 (csrTemplate hostname) privKey)
         = fst (CreateCertificateRequest ext rnd2 (csrTemplate hostname) privKey)"
  shows "fst (generateCSR ext rnd1 hostname privKey) = fst (generateCSR ext rnd2 hostname privKey)
    \<and> generateCSR (ext\<lparr>LoadOrGenerateKeyFile := lk, RequestCertificate := rc,
                          WriteToFile := wr\<rparr>) rnd1 hostname privKey
        = generateCSR ext rnd1 hostname privKey"
  using assms
  by (auto simp: generateCSR_def split: prod.splits sum.splits)

text \<open>
  In the environment the signer uses the first byte of the entropy: two
  invocations whose entropy starts with the same byte return the same bytes.
\<close>

theorem generateCSR_same_signature_witness:
  "fst (CreateCertificateRequest demo ''xa'' (csrTemplate ''node-1'') ''fresh key'')
     = fst (CreateCertificateRequest demo ''xb'' (csrTemplate ''node-1'') ''fresh key'') \<and>
   fst (generateCSR demo ''xa'' ''node-1'' ''fresh key'')
     = fst (generateCSR demo ''xb'' ''node-1'' ''fresh key'') \<and>
   fst (generateCSR demo ''xa'' ''node-1'' ''fresh key'')
     = Inr ''BEGIN CERTIFICATE REQUEST: byoh:host:node-1/byoh:hosts/fresh key/x''"
proof -
  have same: "fst (CreateCertificateRequest demo ''xa'' (csrTemplate ''node-1'') ''fresh key'')
     = fst (CreateCertificateRequest demo ''xb'' (csrTemplate ''node-1'') ''fresh key'')"
    by (simp add: demo_defs)
  have "fst (generateCSR demo ''xa'' ''node-1'' ''fresh key'')
     = Inr ''BEGIN CERTIFICATE REQUEST: byoh:host:node-1/byoh:hosts/fresh key/x''"
    by (simp add: demo_defs csr_defs)
  with same generateCSR_same_signature [OF same] show ?thesis by simp
qed

section \<open>The requested validity\<close>

text \<open>
  C9. Every enrollment request is submitted with the requested validity of one
  year. \<open>certTimeToExpire\<close> is \<open>ExpirationSeconds\<close> seconds in nanoseconds,
  without wrap-around in 64 bits, and \<open>ExpirationSeconds\<close> is 86400 * 365.
  Whenever \<open>RequestBYOHClientCert\<close> reaches \<open>csr.RequestCertificate\<close> (the host
  name is not empty, the key is loaded and parsed, the request is built), it
  submits one request, whose requested duration is \<open>certTimeToExpire\<close>: the
  name, ID and error it returns and what the client reaches afterwards are what
  \<open>csr.RequestCertificate\<close> returns for that request. In every other case it
  submits nothing: the client reaches what it reached before.
\<close>

theorem requested_validity_is_one_year:
  "sint certTimeToExpire = ExpirationSeconds * 1000000000 \<and>
   ExpirationSeconds = 86400 * 365 \<and>
   (\<forall>keyData wasGenerated d privateKey csrData rnd.
      hostname \<noteq> [] \<and>
      LoadOrGenerateKeyFile ext TmpPrivateKey (files h) = (Inr (keyData, wasGenerated), d) \<and>
      ParsePrivateKeyPEM ext keyData = Inr privateKey \<and>
      generateCSR ext (rand_Reader h) hostname privateKey = (Inr csrData, rnd)
      \<longrightarrow>
      rc_requestedDuration (certificateRequest ext hostname csrData privateKey)
        = Some certTimeToExpire \<and>
      RequestBYOHClientCert ext bcsr h hostname =
        (case RequestCertificate ext (BootstrapClient bcsr)
                (certificateRequest ext hostname csrData privateKey) of
           (Inl err, cl) \<Rightarrow>
             (([], [], Some err), \<lparr>BootstrapClient = cl, PrivateKey = keyData\<rparr>,
              \<lparr>files = d, rand_Reader = rnd\<rparr>)
         | (Inr (reqName, reqUID), cl) \<Rightarrow>
             ((reqName, reqUID, None), \<lparr>BootstrapClient = cl, PrivateKey = keyData\<rparr>,
              \<lparr>files = d, rand_Reader = rnd\<rparr>))) \<and>
   (BootstrapClient (fst (snd (RequestBYOHClientCert ext bcsr h hostname)))
      = BootstrapClient bcsr \<or>
    (\<exists>keyData wasGenerated d privateKey csrData rnd.
       hostname \<noteq> [] \<and>
       LoadOrGenerateKeyFile ext TmpPrivateKey (files h) = (Inr (keyData, wasGenerated), d) \<and>
       ParsePrivateKeyPEM ext keyData = Inr privateKey \<and>
       generateCSR ext (rand_Reader h) hostname privateKey = (Inr csrData, rnd)))"
proof (intro conjI allI impI)
  show "sint certTimeToExpire = ExpirationSeconds * 1000000000"
    by (simp add: certTimeToExpire_def ExpirationSeconds_def Second_def)
  show "ExpirationSeconds = 86400 * 365"
    by (simp add: ExpirationSeconds_def)
next
  fix keyData wasGenerated d privateKey csrData rnd
  show "rc_requestedDuration (certificateRequest ext hostname csrData privateKey)
          = Some certTimeToExpire"
    by (simp add: certificateRequest_def)
  assume reached: "hostname \<noteq> [] \<and>
      LoadOrGenerateKeyFile ext TmpPrivateKey (files h) = (Inr (keyData, wasGenerated), d) \<and>
      ParsePrivateKeyPEM ext keyData = Inr privateKey \<and>
      generateCSR ext (rand_Reader h) hostname privateKey = (Inr csrData, rnd)"
  then show "RequestBYOHClientCert ext bcsr h hostname =
        (case RequestCertificate ext (BootstrapClient bcsr)
                (certificateRequest ext hostname csrData privateKey) of
           (Inl err, cl) \<Rightarrow>
             (([], [], Some err), \<lparr>BootstrapClient = cl, PrivateKey = keyData\<rparr>,
              \<lparr>files = d, rand_Reader = rnd\<rparr>)
         | (Inr (reqName, reqUID), cl) \<Rightarrow>
             ((reqName, reqUID, None), \<lparr>BootstrapClient = cl, PrivateKey = keyData\<rparr>,
              \<lparr>files = d, rand_Reader = rnd\<rparr>))"
    by (intro RequestBYOHClientCert_submits) simp_all
next
  show "BootstrapClient (fst (snd (RequestBYOHClientCert ext bcsr h hostname)))
      = BootstrapClient bcsr \<or>
    (\<exists>keyData wasGenerated d privateKey csrData rnd.
       hostname \<noteq> [] \<and>
       LoadOrGenerateKeyFile ext TmpPrivateKey (files h) = (Inr (keyData, wasGenerated), d) \<and>
       ParsePrivateKeyPEM ext keyData = Inr privateKey \<and>
       generateCSR ext (rand_Reader h) hostname privateKey = (Inr csrData, rnd))"
    by (rule RequestBYOHClientCert_untouched)
qed

text \<open>
  In the environment, the run for "node-1" reaches the call, and the request it
  leaves with the authority is the one it built, which asks for 31536000 seconds;
  the run for the empty host name leaves the authority without a request.
\<close>

theorem requested_validity_is_one_year_witness:
  "''node-1'' \<noteq> [] \<and>
   LoadOrGenerateKeyFile demo TmpPrivateKey (files demo_host)
     = (Inr (''fresh key'', True), files demo_host') \<and>
   ParsePrivateKeyPEM demo ''fresh key'' = Inr ''fresh key'' \<and>
   generateCSR demo (rand_Reader demo_host) ''node-1'' ''fresh key''
     = (Inr (rc_csrData demo_request), ''yz'') \<and>
   certificateRequest demo ''node-1'' (rc_csrData demo_request) ''fresh key'' = demo_request \<and>
   RequestBYOHClientCert demo demo_bcsr demo_host ''node-1''
     = (case RequestCertificate demo (BootstrapClient demo_bcsr) demo_request of
          (Inl err, cl) \<Rightarrow>
            (([], [], Some err), \<lparr>BootstrapClient = cl, PrivateKey = ''fresh key''\<rparr>,
             \<lparr>files = files demo_host', rand_Reader = ''yz''\<rparr>)
        | (Inr (reqName, reqUID), cl) \<Rightarrow>
            ((reqName, reqUID, None), \<lparr>BootstrapClient = cl, PrivateKey = ''fresh key''\<rparr>,
             \<lparr>files = files demo_host', rand_Reader = ''yz''\<rparr>)) \<and>
   requests (BootstrapClient (fst (snd (RequestBYOHClientCert demo demo_bcsr demo_host ''node-1''))))
       ''byoh-csr-node-1''
     = Some \<lparr>er_uid = ''uid-1'', er_request = demo_request, er_state = Pending\<rparr> \<and>
   rc_requestedDuration demo_request = Some certTimeToExpire \<and>
   sint certTimeToExpire = 31536000 * 1000000000 \<and>
   BootstrapClient (fst (snd (RequestBYOHClientCert demo demo_bcsr demo_host [])))
     = BootstrapClient demo_bcsr"
proof -
  have load: "LoadOrGenerateKeyFile demo TmpPrivateKey (files demo_host)
     = (Inr (''fresh key'', True), files demo_host')"
    by (simp add: demo_defs TmpPrivateKey_def)
  have parse: "ParsePrivateKeyPEM demo ''fresh key'' = Inr ''fresh key''"
    by (simp add: demo_defs)
  have gen: "generateCSR demo (rand_Reader demo_host) ''node-1'' ''fresh key''
     = (Inr (rc_csrData demo_request), ''yz'')"
    by (simp add: demo_defs csr_defs)
  have req: "certificateRequest demo ''node-1'' (rc_csrData demo_request) ''fresh key''
     = demo_request"
    by (simp add: demo_defs csr_defs)
  note validity = requested_validity_is_one_year [of "''node-1''" demo demo_host demo_bcsr]
  from validity have year: "sint certTimeToExpire = 31536000 * 1000000000"
    by simp
  from validity load parse gen
  have "rc_requestedDuration
          (certificateRequest demo ''node-1'' (rc_csrData demo_request) ''fresh key'')
          = Some certTimeToExpire \<and>
        RequestBYOHClientCert demo demo_bcsr demo_host ''node-1'' =
          (case RequestCertificate demo (BootstrapClient demo_bcsr)
                  (certificateRequest demo ''node-1'' (rc_csrData demo_request) ''fresh key'') of
             (Inl err, cl) \<Rightarrow>
               (([], [], Some err), \<lparr>BootstrapClient = cl, PrivateKey = ''fresh key''\<rparr>,
                \<lparr>files = files demo_host', rand_Reader = ''yz''\<rparr>)
           | (Inr (reqName, reqUID), cl) \<Rightarrow>
               ((reqName, reqUID, None), \<lparr>BootstrapClient = cl, PrivateKey = ''fresh key''\<rparr>,
                \<lparr>files = files demo_host', rand_Reader = ''yz''\<rparr>))"
    by blast
  then have sub: "rc_requestedDuration demo_request = Some certTimeToExpire"
    and run: "RequestBYOHClientCert demo demo_bcsr demo_host ''node-1'' =
          (case RequestCertificate demo (BootstrapClient demo_bcsr) demo_request of
             (Inl err, cl) \<Rightarrow>
               (([], [], Some err), \<lparr>BootstrapClient = cl, PrivateKey = ''fresh key''\<rparr>,
                \<lparr>files = files demo_host', rand_Reader = ''yz''\<rparr>)
           | (Inr (reqName, reqUID), cl) \<Rightarrow>
               ((reqName, reqUID, None), \<lparr>BootstrapClient = cl, PrivateKey = ''fresh key''\<rparr>,
                \<lparr>files = files demo_host', rand_Reader = ''yz''\<rparr>))"
    by (simp_all add: req)
  have held: "requests (BootstrapClient (fst (snd
        (RequestBYOHClientCert demo demo_bcsr demo_host ''node-1'')))) ''byoh-csr-node-1''
     = Some \<lparr>er_uid = ''uid-1'', er_request = demo_request, er_state = Pending\<rparr>"
    by (simp add: demo_run) (simp add: demo_bcsr'_def)
  have none: "BootstrapClient (fst (snd (RequestBYOHClientCert demo demo_bcsr demo_host [])))
     = BootstrapClient demo_bcsr"
    by (simp add: RequestBYOHClientCert_def)
  from load parse gen req run held sub year none show ?thesis
    by simp
qed

end
